theory Spec2Isabelle
  imports Main "HOL-Library.Word"
begin

section \<open>The rollback endpoint of the apps API server\<close>

text \<open>
  This theory embeds \<^verbatim>\<open>pkg/apps/apiserver/registry/rollback/rest.go\<close>: the method
  \<^verbatim>\<open>REST.Create\<close>, which generates a new deployment config representing a rollback, and
  its helper \<^verbatim>\<open>newInvalidError\<close>. The collaborators that \<^verbatim>\<open>Create\<close> calls and
  that live in other packages (the two typed clients, request validation, decoding, the
  conversion scheme, the rollback generator, the naming helpers) are parameters of the model.
\<close>

subsection \<open>Data\<close>

text \<open>Revisions are Go \<^verbatim>\<open>int64\<close> values: subtraction wraps, comparison is signed.\<close>

type_synonym int64 = "64 word"

text \<open>
  A Go \<^verbatim>\<open>map[string]string\<close> that is read and written by key. \<open>None\<close> is the nil map:
  it reads as the empty mapping, and writing an entry to it panics.
\<close>

type_synonym gomap = "(string \<rightharpoonup> string) option"

text \<open>
  A Go map that is only ranged over and measured: its entries in the order in which the
  \<^verbatim>\<open>range\<close> loop visits them. The keys of a Go map are pairwise distinct; the nil map is
  the empty list.
\<close>

type_synonym entries = "(string \<times> string) list"

text \<open>
  The deployment config as \<^verbatim>\<open>Create\<close> reads it. \<open>Name\<close>, \<open>Namespace\<close> and
  \<open>Annotations\<close> are the promoted fields of the embedded object metadata,
  \<open>LatestVersion\<close> is \<^verbatim>\<open>Status.LatestVersion\<close>. Every other field (the whole
  \<^verbatim>\<open>Spec\<close> among them) is never touched by \<^verbatim>\<open>Create\<close> and lives in the extension
  part of the record.
\<close>

record DeploymentConfig =
  Name :: string
  Namespace :: string
  Annotations :: gomap
  LatestVersion :: int64

text \<open>The rollback request: \<^verbatim>\<open>DeploymentConfigRollbackSpec\<close> and \<^verbatim>\<open>DeploymentConfigRollback\<close>.\<close>

record DeploymentConfigRollbackSpec =
  Revision :: int64
  IncludeTemplate :: bool
  IncludeReplicationMeta :: bool
  IncludeStrategy :: bool
  IncludeTriggers :: bool

record DeploymentConfigRollback =
  RollbackName :: string
  UpdatedAnnotations :: entries
  RollbackSpec :: DeploymentConfigRollbackSpec

text \<open>
  The \<^verbatim>\<open>runtime.Object\<close> handed to \<^verbatim>\<open>Create\<close>: either a (non-nil) rollback, or an object
  of another type, kept as the text that the verb \<^verbatim>\<open>%#v\<close> prints for it.
\<close>

datatype RuntimeObject =
    IsRollback DeploymentConfigRollback
  | OtherObject string

text \<open>The request context: \<^verbatim>\<open>apirequest.NamespaceFrom\<close> returns the namespace, if there is one.\<close>

record Context =
  NamespaceFrom :: "string option"

subsection \<open>Errors\<close>

datatype StatusReason =
    StatusReasonUnknown
  | StatusReasonBadRequest
  | StatusReasonNotFound
  | StatusReasonInvalid
  | StatusReasonInternalError

text \<open>
  An error value returned by a collaborator: its status reason (as
  \<^verbatim>\<open>apierrors.ReasonForError\<close> reads it; \<open>StatusReasonUnknown\<close> for an error that is no API
  status) and the text of its \<^verbatim>\<open>Error()\<close> method.
\<close>

record GoError =
  errReason :: StatusReason
  errText :: string

datatype ErrorType = ErrorTypeInvalid | ErrorTypeRequired | ErrorTypeNotFound

text \<open>\<^verbatim>\<open>field.Error\<close>; \<open>Field\<close> is the printed path.\<close>

record FieldError =
  Type :: ErrorType
  Field :: string
  BadValue :: string
  Detail :: string

definition field_Invalid :: "string \<Rightarrow> string \<Rightarrow> string \<Rightarrow> FieldError" where
  "field_Invalid path v detail =
     \<lparr>Type = ErrorTypeInvalid, Field = path, BadValue = v, Detail = detail\<rparr>"

text \<open>
  The errors that \<^verbatim>\<open>Create\<close> returns, by the call that builds them:
  \<^verbatim>\<open>apierrors.NewBadRequest(reason)\<close>, \<^verbatim>\<open>apierrors.NewInvalid(kind, name, errs)\<close>,
  \<^verbatim>\<open>apierrors.NewInternalError(err)\<close>, or a collaborator's error returned as it is.
\<close>

datatype APIError =
    NewBadRequest string
  | NewInvalid string string "FieldError list"
  | NewInternalError GoError
  | Returned GoError

fun ReasonForError :: "APIError \<Rightarrow> StatusReason" where
  "ReasonForError (NewBadRequest _) = StatusReasonBadRequest"
| "ReasonForError (NewInvalid _ _ _) = StatusReasonInvalid"
| "ReasonForError (NewInternalError _) = StatusReasonInternalError"
| "ReasonForError (Returned e) = errReason e"

definition IsNotFound :: "APIError \<Rightarrow> bool" where
  "IsNotFound e = (ReasonForError e = StatusReasonNotFound)"

definition IsInvalid :: "APIError \<Rightarrow> bool" where
  "IsInvalid e = (ReasonForError e = StatusReasonInvalid)"

definition IsBadRequest :: "APIError \<Rightarrow> bool" where
  "IsBadRequest e = (ReasonForError e = StatusReasonBadRequest)"

text \<open>
  How a call ends: it returns a value, returns an error, or panics (a run-time panic is
  not an error value; the text is the panic message).
\<close>

datatype 'a outcome =
    Return 'a
  | Fail APIError
  | Panic string

subsection \<open>Collaborators\<close>

text \<open>
  The receiver: the generator, the deployment config getter \<open>dn\<close> and the replication
  controller getter \<open>rn\<close>. A getter takes the namespace and the name. \<open>'rc\<close> is the
  replication controller, \<open>'i\<close> the internal deployment config.
\<close>

record ('a, 'rc, 'i) REST =
  generator :: "'i \<Rightarrow> 'i \<Rightarrow> DeploymentConfigRollbackSpec \<Rightarrow> GoError + 'i"
  dn :: "string \<Rightarrow> string \<Rightarrow> GoError + 'a DeploymentConfig_scheme"
  rn :: "string \<Rightarrow> string \<Rightarrow> GoError + 'rc"

text \<open>
  The functions of other packages that \<^verbatim>\<open>Create\<close> calls:
  \<^verbatim>\<open>validation.ValidateDeploymentConfigRollback\<close>, \<^verbatim>\<open>appsutil.LabelForDeploymentConfig\<close>,
  \<^verbatim>\<open>appsutil.DeploymentNameForConfigVersion\<close>, \<^verbatim>\<open>appsserialization.DecodeDeploymentConfig\<close>,
  \<^verbatim>\<open>legacyscheme.Scheme.Convert\<close> into a fresh internal deployment config, and the
  quoting of a string by the verb \<^verbatim>\<open>%q\<close>.
\<close>

record ('a, 'rc, 'i) Packages =
  ValidateDeploymentConfigRollback :: "DeploymentConfigRollback \<Rightarrow> FieldError list"
  LabelForDeploymentConfig :: "'a DeploymentConfig_scheme \<Rightarrow> string"
  DeploymentNameForConfigVersion :: "string \<Rightarrow> int64 \<Rightarrow> string"
  DecodeDeploymentConfig :: "'rc \<Rightarrow> GoError + 'a DeploymentConfig_scheme"
  Convert :: "'a DeploymentConfig_scheme \<Rightarrow> GoError + 'i"
  quoted :: "string \<Rightarrow> string"

text \<open>
  The calls that leave \<^verbatim>\<open>Create\<close>, in the order in which it makes them: request
  validation, the caller's \<^verbatim>\<open>createValidation\<close>, the read of the deployment config,
  the read of the replication controller (the historical record), and the generator.
\<close>

datatype Call =
    CallValidate
  | CallCreateValidation
  | GetDeploymentConfig string string
  | GetReplicationController string string
  | CallGenerateRollback

subsection \<open>Formatting\<close>

text \<open>The verb \<^verbatim>\<open>%d\<close> on an \<^verbatim>\<open>int64\<close>: signed decimal.\<close>

function decimal :: "nat \<Rightarrow> string" where
  "decimal n =
     (if n < 10 then [''0123456789'' ! n]
      else decimal (n div 10) @ [''0123456789'' ! (n mod 10)])"
  by pat_completeness auto
termination
  by (relation "measure id") auto

declare decimal.simps [simp del]

definition formatInt64 :: "int64 \<Rightarrow> string" where
  "formatInt64 x =
     (if sint x < 0 then CHR ''-'' # decimal (nat (- sint x)) else decimal (nat (sint x)))"

subsection \<open>\<^verbatim>\<open>newInvalidError\<close>\<close>

definition newInvalidError :: "DeploymentConfigRollback \<Rightarrow> string \<Rightarrow> APIError" where
  "newInvalidError rollback reason =
     (let err = field_Invalid ''name'' (RollbackName rollback) reason
      in NewInvalid ''DeploymentConfigRollback'' (RollbackName rollback) [err])"

subsection \<open>The annotation update of \<^verbatim>\<open>Create\<close>\<close>

text \<open>
  The loop \<^verbatim>\<open>for key, value := range rollback.UpdatedAnnotations { from.Annotations[key] = value }\<close>.
  \<open>Inl\<close> is the panic of an assignment to an entry of the nil map.
\<close>

fun assignEntries :: "gomap \<Rightarrow> entries \<Rightarrow> string + gomap" where
  "assignEntries a [] = Inr a"
| "assignEntries None ((key, v) # rest) = Inl ''assignment to entry in nil map''"
| "assignEntries (Some m) ((key, v) # rest) = assignEntries (Some (m(key \<mapsto> v))) rest"

text \<open>
  Lines 104 to 109: the nil check that makes a fresh map, then the loop. The result is the
  updated \<^verbatim>\<open>from\<close>.
\<close>

definition updateAnnotations ::
  "'a DeploymentConfig_scheme \<Rightarrow> entries \<Rightarrow> string + 'a DeploymentConfig_scheme" where
  "updateAnnotations from updated =
     (let from1 = (if Annotations from = None \<and> length updated > 0
                   then from\<lparr>Annotations := Some Map.empty\<rparr> else from)
      in case assignEntries (Annotations from1) updated of
           Inl p \<Rightarrow> Inl p
         | Inr a \<Rightarrow> Inr (from1\<lparr>Annotations := a\<rparr>))"

text \<open>What a map holds, read by key: the nil map reads as the empty mapping.\<close>

definition entriesOf :: "gomap \<Rightarrow> (string \<rightharpoonup> string)" where
  "entriesOf a = (case a of None \<Rightarrow> Map.empty | Some m \<Rightarrow> m)"

subsection \<open>\<^verbatim>\<open>REST.Create\<close>\<close>

text \<open>
  The result is the outcome together with the calls made, in order. The \<^verbatim>\<open>switch\<close> on
  \<^verbatim>\<open>from.Status.LatestVersion\<close> tries its cases from top to bottom and takes the first
  that is equal.
\<close>

definition Create ::
  "('a, 'rc, 'i) REST \<Rightarrow> ('a, 'rc, 'i) Packages \<Rightarrow> Context \<Rightarrow> RuntimeObject \<Rightarrow>
   (RuntimeObject \<Rightarrow> GoError option) \<Rightarrow> 'i outcome \<times> Call list" where
  "Create r pkg ctx obj createValidation =
    (case NamespaceFrom ctx of
       None \<Rightarrow> (Fail (NewBadRequest ''namespace parameter required.''), [])
     | Some namespace \<Rightarrow>
    (case obj of
       OtherObject repr \<Rightarrow> (Fail (NewBadRequest (''not a rollback spec: '' @ repr)), [])
     | IsRollback rollback \<Rightarrow>
    (let errs = ValidateDeploymentConfigRollback pkg rollback;
         calls1 = [CallValidate]
     in if length errs > 0
        then (Fail (NewInvalid ''DeploymentConfigRollback'' (RollbackName rollback) errs), calls1)
        else
    (let calls2 = calls1 @ [CallCreateValidation]
     in case createValidation obj of
          Some err \<Rightarrow> (Fail (Returned err), calls2)
        | None \<Rightarrow>
    (let calls3 = calls2 @ [GetDeploymentConfig namespace (RollbackName rollback)]
     in case dn r namespace (RollbackName rollback) of
          Inl err \<Rightarrow>
            (Fail (newInvalidError rollback
               (''cannot get deployment config '' @ quoted pkg (RollbackName rollback)
                  @ '': '' @ errText err)), calls3)
        | Inr from \<Rightarrow>
    (if LatestVersion from = 0
     then (Fail (newInvalidError rollback ''cannot rollback an undeployed config''), calls3)
     else if LatestVersion from = 1
     then (Fail (newInvalidError rollback
             (''no previous deployment exists for ''
                @ quoted pkg (LabelForDeploymentConfig pkg from))), calls3)
     else if LatestVersion from = Revision (RollbackSpec rollback)
     then (Fail (newInvalidError rollback
             (''version '' @ formatInt64 (Revision (RollbackSpec rollback))
                @ '' is already the latest'')), calls3)
     else
    (let revision0 = LatestVersion from - 1;
         revision = (if 0 <s Revision (RollbackSpec rollback)
                     then Revision (RollbackSpec rollback) else revision0);
         name = DeploymentNameForConfigVersion pkg (Name from) revision;
         calls4 = calls3 @ [GetReplicationController namespace name]
     in case rn r namespace name of
          Inl err \<Rightarrow> (Fail (newInvalidError rollback (errText err)), calls4)
        | Inr targetDeployment \<Rightarrow>
    (case DecodeDeploymentConfig pkg targetDeployment of
       Inl err \<Rightarrow>
         (Fail (newInvalidError rollback
            (''couldn't decode deployment config from deployment: '' @ errText err)), calls4)
     | Inr to \<Rightarrow>
    (case Convert pkg to of
       Inl err \<Rightarrow> (Fail (NewInternalError err), calls4)
     | Inr toInternal \<Rightarrow>
    (case updateAnnotations from (UpdatedAnnotations rollback) of
       Inl p \<Rightarrow> (Panic p, calls4)
     | Inr from2 \<Rightarrow>
    (case Convert pkg from2 of
       Inl err \<Rightarrow> (Fail (NewInternalError err), calls4)
     | Inr fromInternal \<Rightarrow>
    (case generator r fromInternal toInternal (RollbackSpec rollback) of
       Inl err \<Rightarrow> (Fail (Returned err), calls4 @ [CallGenerateRollback])
     | Inr result \<Rightarrow> (Return result, calls4 @ [CallGenerateRollback])))))))))))))"

subsection \<open>The rollback merger\<close>

text \<open>
  Modelled from the spec: the desired-state document of section 3. The implementation of
  the generator (\<^verbatim>\<open>RollbackGenerator.GenerateRollback\<close>) is not part of \<^verbatim>\<open>rest.go\<close>,
  which only calls it. The sub-documents are opaque (\<open>'t\<close>, \<open>'m\<close>, \<open>'s\<close>, \<open>'g\<close>);
  an absent annotation mapping is \<open>None\<close>.
\<close>

record ('t, 'm, 's, 'g) DesiredState =
  name :: string
  namespace :: string
  latestRevision :: int
  templateSpec :: 't
  replicationMeta :: 'm
  strategy :: 's
  triggers :: "'g list"
  annotations :: "(string \<rightharpoonup> string) option"

text \<open>Modelled from the spec: the rollback request of section 3.\<close>

record RollbackRequest =
  targetName :: string
  requestedRevision :: int
  includeTemplate :: bool
  includeReplicationMeta :: bool
  includeStrategy :: bool
  includeTriggers :: bool
  updatedAnnotations :: "string \<rightharpoonup> string"

text \<open>
  Modelled from the spec: the mask of section 4.2, four independent gates named
  \<open>template\<close>, \<open>replicationMeta\<close>, \<open>strategy\<close> and \<open>triggers\<close> there.
\<close>

record Mask =
  gateTemplate :: bool
  gateReplicationMeta :: bool
  gateStrategy :: bool
  gateTriggers :: bool

text \<open>
  Modelled from the spec: the field selector of section 4.2, which copies the request's
  inclusion flags one to one.
\<close>

definition selectionMask :: "RollbackRequest \<Rightarrow> Mask" where
  "selectionMask request =
     \<lparr>gateTemplate = includeTemplate request,
      gateReplicationMeta = includeReplicationMeta request,
      gateStrategy = includeStrategy request,
      gateTriggers = includeTriggers request\<rparr>"

text \<open>
  Modelled from the spec: the merger of section 4.3. The base is a copy of \<open>current\<close>;
  its annotations are \<open>current\<close>'s (an empty mapping if absent) overwritten by every
  override; then each gate that is true overwrites its sub-field with \<open>target\<close>'s.
\<close>

definition merge ::
  "('t, 'm, 's, 'g) DesiredState \<Rightarrow> ('t, 'm, 's, 'g) DesiredState \<Rightarrow> Mask \<Rightarrow>
   (string \<rightharpoonup> string) \<Rightarrow> ('t, 'm, 's, 'g) DesiredState" where
  "merge current target gates annotationOverrides =
     (let base0 = current;
          start = (case annotations current of None \<Rightarrow> Map.empty | Some m \<Rightarrow> m);
          base1 = base0\<lparr>annotations := Some (start ++ annotationOverrides)\<rparr>;
          base2 = (if gateTemplate gates
                   then base1\<lparr>templateSpec := templateSpec target\<rparr> else base1);
          base3 = (if gateReplicationMeta gates
                   then base2\<lparr>replicationMeta := replicationMeta target\<rparr> else base2);
          base4 = (if gateStrategy gates
                   then base3\<lparr>strategy := strategy target\<rparr> else base3);
          base5 = (if gateTriggers gates
                   then base4\<lparr>triggers := triggers target\<rparr> else base4)
      in base5)"

subsection \<open>A concrete deployment\<close>

text \<open>
  One deployment config \<open>cfg\<close> in namespace \<open>ns\<close> with a history of replication
  controllers, used to run \<^verbatim>\<open>Create\<close> on concrete requests. Here a replication
  controller is the deployment config it encodes, conversion changes nothing, and the
  generator returns the target with the annotations of the source.
\<close>

definition notFound :: "string \<Rightarrow> GoError" where
  "notFound n = \<lparr>errReason = StatusReasonNotFound, errText = n @ '' not found''\<rparr>"

definition exampleREST ::
  "DeploymentConfig \<Rightarrow> (string \<times> DeploymentConfig) list \<Rightarrow>
   (unit, DeploymentConfig, DeploymentConfig) REST" where
  "exampleREST current history =
     \<lparr>generator = (\<lambda>from to spec. Inr (to\<lparr>Annotations := Annotations from\<rparr>)),
      dn = (\<lambda>namespace n.
              if namespace = Namespace current \<and> n = Name current then Inr current
              else Inl (notFound n)),
      rn = (\<lambda>namespace n.
              case map_of history n of Some rc \<Rightarrow> Inr rc | None \<Rightarrow> Inl (notFound n))\<rparr>"

definition examplePackages :: "(unit, DeploymentConfig, DeploymentConfig) Packages" where
  "examplePackages =
     \<lparr>ValidateDeploymentConfigRollback = (\<lambda>rollback. []),
      LabelForDeploymentConfig = (\<lambda>config. Namespace config @ ''/'' @ Name config),
      DeploymentNameForConfigVersion = (\<lambda>n v. n @ ''-'' @ formatInt64 v),
      DecodeDeploymentConfig = Inr,
      Convert = Inr,
      quoted = (\<lambda>s. [CHR 0x22] @ s @ [CHR 0x22])\<rparr>"

definition exampleConfig :: "int64 \<Rightarrow> DeploymentConfig" where
  "exampleConfig latest =
     \<lparr>Name = ''cfg'', Namespace = ''ns'', Annotations = Some [''a'' \<mapsto> ''1''],
      LatestVersion = latest\<rparr>"

definition exampleRollback :: "int64 \<Rightarrow> DeploymentConfigRollback" where
  "exampleRollback revision =
     \<lparr>RollbackName = ''cfg'',
      UpdatedAnnotations = [(''a'', ''2''), (''b'', ''3'')],
      RollbackSpec = \<lparr>Revision = revision, IncludeTemplate = True,
        IncludeReplicationMeta = False, IncludeStrategy = False, IncludeTriggers = False\<rparr>\<rparr>"

definition exampleContext :: Context where
  "exampleContext = \<lparr>NamespaceFrom = Some ''ns''\<rparr>"

definition noCreateValidation :: "RuntimeObject \<Rightarrow> GoError option" where
  "noCreateValidation obj = None"

definition exampleMerged :: gomap where
  "exampleMerged = Some [''a'' \<mapsto> ''2'', ''b'' \<mapsto> ''3'']"

section \<open>Properties\<close>

subsection \<open>Signed arithmetic on revisions\<close>

lemma sless_one_neq: "1 <s (x::int64) \<Longrightarrow> x \<noteq> 0 \<and> x \<noteq> 1"
  by (auto simp: word_sless_alt)

lemma sint_pred:
  assumes "1 <s (x::int64)"
  shows "sint (x - 1) = sint x - 1"
proof -
  have a: "1 < sint x" using assms by (simp add: word_sless_alt)
  have b: "sint x < 2 ^ 63" using sint_lt [of x] by simp
  have "sint (x - 1) = signed_take_bit 63 (sint x - 1)"
    by (simp add: sint_word_ariths)
  also have "\<dots> = sint x - 1"
    by (rule signed_take_bit_int_eq_self) (use a b in auto)
  finally show ?thesis .
qed

subsection \<open>The annotation loop\<close>

lemma upd_add_fresh:
  assumes "key \<notin> fst ` set rest"
  shows "m(key \<mapsto> v) ++ map_of rest = (m ++ map_of rest)(key \<mapsto> v)"
proof
  fix x
  have "map_of rest key = None"
    using assms by (simp add: map_of_eq_None_iff)
  then show "(m(key \<mapsto> v) ++ map_of rest) x = ((m ++ map_of rest)(key \<mapsto> v)) x"
    by (auto simp: map_add_def split: option.splits)
qed

lemma assignEntries_Some:
  "distinct (map fst updated) \<Longrightarrow>
   assignEntries (Some m) updated = Inr (Some (m ++ map_of updated))"
proof (induction updated arbitrary: m)
  case Nil
  then show ?case by simp
next
  case (Cons kv rest)
  obtain key v where kv: "kv = (key, v)" by (cases kv)
  from Cons.prems kv have fresh: "key \<notin> fst ` set rest" and d: "distinct (map fst rest)"
    by auto
  have "assignEntries (Some m) (kv # rest) = assignEntries (Some (m(key \<mapsto> v))) rest"
    by (simp add: kv)
  also have "\<dots> = Inr (Some (m(key \<mapsto> v) ++ map_of rest))"
    by (rule Cons.IH [OF d])
  also have "m(key \<mapsto> v) ++ map_of rest = m ++ map_of (kv # rest)"
    by (simp add: kv upd_add_fresh [OF fresh])
  finally show ?case .
qed

lemma assignEntries_never_panics_on_map: "\<exists>a. assignEntries (Some m) updated = Inr a"
  by (induction updated arbitrary: m) auto

lemma updateAnnotations_result:
  assumes "distinct (map fst updated)"
  shows "updateAnnotations from updated =
     Inr (from\<lparr>Annotations :=
       (if Annotations from = None \<and> updated = [] then None
        else Some (entriesOf (Annotations from) ++ map_of updated))\<rparr>)"
proof (cases "Annotations from")
  case None
  show ?thesis
  proof (cases updated)
    case Nil
    with None show ?thesis by (simp add: updateAnnotations_def)
  next
    case (Cons kv rest)
    with None assms assignEntries_Some [of updated Map.empty]
    show ?thesis by (simp add: updateAnnotations_def entriesOf_def)
  qed
next
  case (Some m)
  with assms assignEntries_Some [of updated m]
  show ?thesis by (simp add: updateAnnotations_def entriesOf_def)
qed

lemma updateAnnotations_no_panic: "\<exists>from2. updateAnnotations from updated = Inr from2"
proof (cases "Annotations from")
  case None
  then show ?thesis
    using assignEntries_never_panics_on_map [of Map.empty updated]
    by (cases updated) (auto simp: updateAnnotations_def)
next
  case (Some m)
  then show ?thesis
    using assignEntries_never_panics_on_map [of m updated]
    by (auto simp: updateAnnotations_def)
qed

lemma updateAnnotations_not_Inl: "updateAnnotations from updated \<noteq> Inl p"
  using updateAnnotations_no_panic [of "from" updated] by auto

lemma Create_never_panics: "fst (Create r pkg ctx obj createValidation) \<noteq> Panic p"
  by (simp add: Create_def Let_def updateAnnotations_not_Inl
      split: option.splits RuntimeObject.splits sum.splits)

lemma formatInt64_3: "formatInt64 3 = ''3''"
  by code_simp

lemma formatInt64_4: "formatInt64 4 = ''4''"
  by code_simp

lemma formatInt64_7: "formatInt64 7 = ''7''"
  by code_simp

lemma exampleMerged_eq:
  "Some ([''a'' \<mapsto> ''1''] ++ map_of [(''a'', ''2''), (''b'', ''3'')]) = exampleMerged"
  by (simp add: exampleMerged_def fun_upd_twist)

subsection \<open>The target revision\<close>

text \<open>
  C1. When the deployment config is read and its latest version is greater than 1 and
  differs from the requested revision (so that none of the three cases of the switch is
  taken), the next call is the read of the replication controller named from the config's
  name and the target revision: the requested revision when that is positive, the latest
  version minus one otherwise. The subtraction does not wrap. With latest version 5 and
  requested revision 0 the target is revision 4.
\<close>

theorem Create_target_revision:
  assumes "NamespaceFrom ctx = Some ns"
    and "ValidateDeploymentConfigRollback pkg rollback = []"
    and "createValidation (IsRollback rollback) = None"
    and "dn r ns (RollbackName rollback) = Inr from"
    and "1 <s LatestVersion from"
    and "LatestVersion from \<noteq> Revision (RollbackSpec rollback)"
  shows "take 4 (snd (Create r pkg ctx (IsRollback rollback) createValidation)) =
      [CallValidate, CallCreateValidation, GetDeploymentConfig ns (RollbackName rollback),
       GetReplicationController ns (DeploymentNameForConfigVersion pkg (Name from)
         (if 0 <s Revision (RollbackSpec rollback) then Revision (RollbackSpec rollback)
          else LatestVersion from - 1))]
     \<and> sint (if 0 <s Revision (RollbackSpec rollback) then Revision (RollbackSpec rollback)
              else LatestVersion from - 1)
         = (if 0 < sint (Revision (RollbackSpec rollback))
            then sint (Revision (RollbackSpec rollback))
            else sint (LatestVersion from) - 1)"
proof -
  have guards: "LatestVersion from \<noteq> 0" "LatestVersion from \<noteq> 1"
    using assms(5) sless_one_neq by auto
  have calls: "take 4 (snd (Create r pkg ctx (IsRollback rollback) createValidation)) =
      [CallValidate, CallCreateValidation, GetDeploymentConfig ns (RollbackName rollback),
       GetReplicationController ns (DeploymentNameForConfigVersion pkg (Name from)
         (if 0 <s Revision (RollbackSpec rollback) then Revision (RollbackSpec rollback)
          else LatestVersion from - 1))]"
    using guards assms by (auto simp add: Create_def Let_def split: sum.splits)
  have "sint (LatestVersion from - 1) = sint (LatestVersion from) - 1"
    using assms(5) by (rule sint_pred)
  then show ?thesis using calls by (simp add: word_sless_alt)
qed

theorem Create_target_revision_witness:
  "1 <s LatestVersion (exampleConfig 5)
   \<and> take 4 (snd (Create (exampleREST (exampleConfig 5) [(''cfg-4'', exampleConfig 4)])
        examplePackages exampleContext (IsRollback (exampleRollback 0)) noCreateValidation)) =
      [CallValidate, CallCreateValidation, GetDeploymentConfig ''ns'' ''cfg'',
       GetReplicationController ''ns'' ''cfg-4'']"
  using Create_target_revision [of exampleContext "''ns''" examplePackages "exampleRollback 0"
      noCreateValidation "exampleREST (exampleConfig 5) [(''cfg-4'', exampleConfig 4)]"
      "exampleConfig 5"]
  by (simp add: exampleREST_def examplePackages_def exampleConfig_def exampleRollback_def
      exampleContext_def noCreateValidation_def formatInt64_4 word_sless_alt)

subsection \<open>The three cases of the switch\<close>

text \<open>
  C2. When the deployment config that is read has latest version 0, \<^verbatim>\<open>Create\<close> fails
  with the invalid error on the field \<open>name\<close> whose reason is
  "cannot rollback an undeployed config", whatever revision the request asks for, and it
  makes no call after the read of the deployment config: no replication controller is
  looked up.
\<close>

theorem Create_undeployed:
  assumes "NamespaceFrom ctx = Some ns"
    and "ValidateDeploymentConfigRollback pkg rollback = []"
    and "createValidation (IsRollback rollback) = None"
    and "dn r ns (RollbackName rollback) = Inr from"
    and "LatestVersion from = 0"
  shows "Create r pkg ctx (IsRollback rollback) createValidation =
     (Fail (newInvalidError rollback ''cannot rollback an undeployed config''),
      [CallValidate, CallCreateValidation, GetDeploymentConfig ns (RollbackName rollback)])"
  using assms by (simp add: Create_def)

theorem Create_undeployed_witness:
  "LatestVersion (exampleConfig 0) = 0
   \<and> Create (exampleREST (exampleConfig 0) []) examplePackages exampleContext
        (IsRollback (exampleRollback 2)) noCreateValidation =
     (Fail (newInvalidError (exampleRollback 2) ''cannot rollback an undeployed config''),
      [CallValidate, CallCreateValidation, GetDeploymentConfig ''ns'' ''cfg''])"
  using Create_undeployed [of exampleContext "''ns''" examplePackages "exampleRollback 2"
      noCreateValidation "exampleREST (exampleConfig 0) []" "exampleConfig 0"]
  by (simp add: exampleREST_def examplePackages_def exampleConfig_def exampleRollback_def
      exampleContext_def noCreateValidation_def)

text \<open>
  C3. When the deployment config that is read has latest version 1, \<^verbatim>\<open>Create\<close> fails
  with the invalid error whose reason is "no previous deployment exists for" the config's
  label, whatever revision the request asks for. The case 1 of the switch comes before
  the case of the requested revision, so this also holds when the requested revision is 1.
\<close>

theorem Create_no_previous_deployment:
  assumes "NamespaceFrom ctx = Some ns"
    and "ValidateDeploymentConfigRollback pkg rollback = []"
    and "createValidation (IsRollback rollback) = None"
    and "dn r ns (RollbackName rollback) = Inr from"
    and "LatestVersion from = 1"
  shows "Create r pkg ctx (IsRollback rollback) createValidation =
     (Fail (newInvalidError rollback
        (''no previous deployment exists for ''
           @ quoted pkg (LabelForDeploymentConfig pkg from))),
      [CallValidate, CallCreateValidation, GetDeploymentConfig ns (RollbackName rollback)])"
  using assms by (simp add: Create_def)

theorem Create_no_previous_deployment_witness:
  "LatestVersion (exampleConfig 1) = Revision (RollbackSpec (exampleRollback 1))
   \<and> Create (exampleREST (exampleConfig 1) []) examplePackages exampleContext
        (IsRollback (exampleRollback 1)) noCreateValidation =
     (Fail (newInvalidError (exampleRollback 1)
        (''no previous deployment exists for '' @ quoted examplePackages ''ns/cfg'')),
      [CallValidate, CallCreateValidation, GetDeploymentConfig ''ns'' ''cfg''])"
  using Create_no_previous_deployment [of exampleContext "''ns''" examplePackages
      "exampleRollback 1" noCreateValidation "exampleREST (exampleConfig 1) []"
      "exampleConfig 1"]
  by (simp add: exampleREST_def examplePackages_def exampleConfig_def exampleRollback_def
      exampleContext_def noCreateValidation_def)

text \<open>
  C4. When the latest version of the deployment config is greater than 1 and the
  requested revision equals it, \<^verbatim>\<open>Create\<close> fails with the invalid error whose reason is
  "version N is already the latest", N the requested revision in decimal, and it makes no
  call after the read of the deployment config.
\<close>

theorem Create_already_latest:
  assumes "NamespaceFrom ctx = Some ns"
    and "ValidateDeploymentConfigRollback pkg rollback = []"
    and "createValidation (IsRollback rollback) = None"
    and "dn r ns (RollbackName rollback) = Inr from"
    and "1 <s LatestVersion from"
    and "Revision (RollbackSpec rollback) = LatestVersion from"
  shows "Create r pkg ctx (IsRollback rollback) createValidation =
     (Fail (newInvalidError rollback
        (''version '' @ formatInt64 (Revision (RollbackSpec rollback))
           @ '' is already the latest'')),
      [CallValidate, CallCreateValidation, GetDeploymentConfig ns (RollbackName rollback)])"
proof -
  have "LatestVersion from \<noteq> 0" "LatestVersion from \<noteq> 1"
    using assms(5) sless_one_neq by auto
  then show ?thesis using assms by (simp add: Create_def)
qed

theorem Create_already_latest_witness:
  "1 <s LatestVersion (exampleConfig 3)
   \<and> Create (exampleREST (exampleConfig 3) []) examplePackages exampleContext
        (IsRollback (exampleRollback 3)) noCreateValidation =
     (Fail (newInvalidError (exampleRollback 3) ''version 3 is already the latest''),
      [CallValidate, CallCreateValidation, GetDeploymentConfig ''ns'' ''cfg''])"
  using Create_already_latest [of exampleContext "''ns''" examplePackages "exampleRollback 3"
      noCreateValidation "exampleREST (exampleConfig 3) []" "exampleConfig 3"]
  by (simp add: exampleREST_def examplePackages_def exampleConfig_def exampleRollback_def
      exampleContext_def noCreateValidation_def formatInt64_3 word_sless_alt)

subsection \<open>Annotations\<close>

text \<open>
  C5. On the path where the target is found, decoded and converted, \<^verbatim>\<open>Create\<close> updates
  the annotations of the deployment config it has read before it converts that config
  and hands it to the generator: the updated annotations hold the config's own
  annotations (none if the map is nil) with every entry of the request's updated
  annotations set over them, and no other field of the config changes. A nil map stays
  nil when the request has no updated annotations. The outcome of \<^verbatim>\<open>Create\<close> is the
  generator's, run on the conversion of the updated config. For the annotations a = 1
  and the updates a = 2, b = 3 the result holds a = 2 and b = 3.
\<close>

theorem Create_annotations_updated_before_generation:
  assumes "NamespaceFrom ctx = Some ns"
    and "ValidateDeploymentConfigRollback pkg rollback = []"
    and "createValidation (IsRollback rollback) = None"
    and "dn r ns (RollbackName rollback) = Inr from"
    and "LatestVersion from \<noteq> 0"
    and "LatestVersion from \<noteq> 1"
    and "LatestVersion from \<noteq> Revision (RollbackSpec rollback)"
    and "rn r ns (DeploymentNameForConfigVersion pkg (Name from)
           (if 0 <s Revision (RollbackSpec rollback) then Revision (RollbackSpec rollback)
            else LatestVersion from - 1)) = Inr targetDeployment"
    and "DecodeDeploymentConfig pkg targetDeployment = Inr to"
    and "Convert pkg to = Inr toInternal"
    and "distinct (map fst (UpdatedAnnotations rollback))"
  shows "(let merged = (if Annotations from = None \<and> UpdatedAnnotations rollback = [] then None
                        else Some (entriesOf (Annotations from)
                               ++ map_of (UpdatedAnnotations rollback)));
              from2 = from\<lparr>Annotations := merged\<rparr>
          in entriesOf merged
               = entriesOf (Annotations from) ++ map_of (UpdatedAnnotations rollback)
           \<and> updateAnnotations from (UpdatedAnnotations rollback) = Inr from2
           \<and> fst (Create r pkg ctx (IsRollback rollback) createValidation)
               = (case Convert pkg from2 of
                    Inl err \<Rightarrow> Fail (NewInternalError err)
                  | Inr fromInternal \<Rightarrow>
                      (case generator r fromInternal toInternal (RollbackSpec rollback) of
                         Inl err \<Rightarrow> Fail (Returned err)
                       | Inr result \<Rightarrow> Return result)))"
proof -
  define merged where "merged =
     (if Annotations from = None \<and> UpdatedAnnotations rollback = [] then None
      else Some (entriesOf (Annotations from) ++ map_of (UpdatedAnnotations rollback)))"
  have upd: "updateAnnotations from (UpdatedAnnotations rollback)
      = Inr (from\<lparr>Annotations := merged\<rparr>)"
    unfolding merged_def using assms(11) by (rule updateAnnotations_result)
  have held: "entriesOf merged
      = entriesOf (Annotations from) ++ map_of (UpdatedAnnotations rollback)"
    by (simp add: merged_def entriesOf_def)
  have run: "fst (Create r pkg ctx (IsRollback rollback) createValidation)
      = (case Convert pkg (from\<lparr>Annotations := merged\<rparr>) of
           Inl err \<Rightarrow> Fail (NewInternalError err)
         | Inr fromInternal \<Rightarrow>
             (case generator r fromInternal toInternal (RollbackSpec rollback) of
                Inl err \<Rightarrow> Fail (Returned err)
              | Inr result \<Rightarrow> Return result))"
    using assms(1-10) upd by (auto simp add: Create_def Let_def split: sum.splits)
  show ?thesis
    using upd held run unfolding merged_def [symmetric] Let_def by simp
qed

theorem Create_annotations_updated_before_generation_witness:
  "distinct (map fst (UpdatedAnnotations (exampleRollback 0)))
   \<and> updateAnnotations (exampleConfig 5) (UpdatedAnnotations (exampleRollback 0))
       = Inr ((exampleConfig 5)\<lparr>Annotations := exampleMerged\<rparr>)
   \<and> fst (Create (exampleREST (exampleConfig 5) [(''cfg-4'', exampleConfig 4)])
        examplePackages exampleContext (IsRollback (exampleRollback 0)) noCreateValidation)
       = Return ((exampleConfig 4)\<lparr>Annotations := exampleMerged\<rparr>)"
  using Create_annotations_updated_before_generation [of exampleContext "''ns''"
      examplePackages "exampleRollback 0" noCreateValidation
      "exampleREST (exampleConfig 5) [(''cfg-4'', exampleConfig 4)]" "exampleConfig 5"
      "exampleConfig 4" "exampleConfig 4" "exampleConfig 4"]
    exampleMerged_eq
  by (simp add: exampleREST_def examplePackages_def exampleConfig_def exampleRollback_def
      exampleContext_def noCreateValidation_def formatInt64_4 entriesOf_def)

subsection \<open>The merger\<close>

text \<open>
  C6. Merging with every gate true gives a document whose template, replication
  metadata, strategy and triggers are the target's, and whose name, namespace and latest
  revision are the current document's. Whatever the gates, the latest revision of the
  result is the current one.
\<close>

theorem merge_all_gates:
  "(let result = merge current target
         \<lparr>gateTemplate = True, gateReplicationMeta = True, gateStrategy = True,
           gateTriggers = True\<rparr> overrides
    in templateSpec result = templateSpec target
     \<and> replicationMeta result = replicationMeta target
     \<and> strategy result = strategy target
     \<and> triggers result = triggers target
     \<and> name result = name current
     \<and> namespace result = namespace current
     \<and> latestRevision result = latestRevision current)
   \<and> latestRevision (merge current target gates overrides) = latestRevision current"
  by (simp add: merge_def Let_def)

text \<open>
  C7. Merging with every gate false gives a document, not an error: the current document
  with only its annotations replaced, so its template, replication metadata, strategy and
  triggers are the current ones. This is in particular what the mask selected from a
  request with all four inclusion flags false gives. With the template gate alone true,
  the result has the target's template and the current replication metadata, strategy
  and triggers.
\<close>

theorem merge_no_gates_and_template_only:
  "(let result = merge current target
         \<lparr>gateTemplate = False, gateReplicationMeta = False, gateStrategy = False,
           gateTriggers = False\<rparr> overrides
    in result = current\<lparr>annotations := annotations result\<rparr>
     \<and> templateSpec result = templateSpec current
     \<and> replicationMeta result = replicationMeta current
     \<and> strategy result = strategy current
     \<and> triggers result = triggers current)
   \<and> selectionMask \<lparr>targetName = n, requestedRevision = v, includeTemplate = False,
        includeReplicationMeta = False, includeStrategy = False, includeTriggers = False,
        updatedAnnotations = overrides\<rparr>
       = \<lparr>gateTemplate = False, gateReplicationMeta = False, gateStrategy = False,
           gateTriggers = False\<rparr>
   \<and> (let result = merge current target
         \<lparr>gateTemplate = True, gateReplicationMeta = False, gateStrategy = False,
           gateTriggers = False\<rparr> overrides
    in templateSpec result = templateSpec target
     \<and> replicationMeta result = replicationMeta current
     \<and> strategy result = strategy current
     \<and> triggers result = triggers current)"
  by (simp add: merge_def selectionMask_def Let_def)

subsection \<open>A requested revision beyond the latest\<close>

text \<open>
  C8, as the claim states it, fails: with latest version 3 and requested revision 7, and a
  replication controller stored under the name for revision 7, \<^verbatim>\<open>Create\<close> reads that
  replication controller and returns a generated config.
\<close>

theorem Create_later_revision_counterexample:
  "LatestVersion (exampleConfig 3) <s Revision (RollbackSpec (exampleRollback 7))
   \<and> Create (exampleREST (exampleConfig 3) [(''cfg-7'', exampleConfig 7)])
        examplePackages exampleContext (IsRollback (exampleRollback 7)) noCreateValidation =
     (Return ((exampleConfig 7)\<lparr>Annotations := exampleMerged\<rparr>),
      [CallValidate, CallCreateValidation, GetDeploymentConfig ''ns'' ''cfg'',
       GetReplicationController ''ns'' ''cfg-7'', CallGenerateRollback])"
  by (simp add: Create_def updateAnnotations_def exampleREST_def examplePackages_def
      exampleConfig_def exampleRollback_def exampleContext_def noCreateValidation_def
      exampleMerged_def formatInt64_7 word_sless_alt)

text \<open>
  C8, amended. \<^verbatim>\<open>Create\<close> does not compare a requested revision greater than the
  latest version (itself greater than 1) with the latest version: it goes on to read the
  replication controller named from the config's name and the requested revision. When
  that read fails, \<^verbatim>\<open>Create\<close> rejects the request with the invalid error on the field
  \<open>name\<close> whose reason is the text of the read's error.
\<close>

theorem Create_later_revision_looked_up:
  assumes "NamespaceFrom ctx = Some ns"
    and "ValidateDeploymentConfigRollback pkg rollback = []"
    and "createValidation (IsRollback rollback) = None"
    and "dn r ns (RollbackName rollback) = Inr from"
    and "1 <s LatestVersion from"
    and "LatestVersion from <s Revision (RollbackSpec rollback)"
  shows "take 4 (snd (Create r pkg ctx (IsRollback rollback) createValidation)) =
      [CallValidate, CallCreateValidation, GetDeploymentConfig ns (RollbackName rollback),
       GetReplicationController ns
         (DeploymentNameForConfigVersion pkg (Name from) (Revision (RollbackSpec rollback)))]
     \<and> (\<forall>err. rn r ns (DeploymentNameForConfigVersion pkg (Name from)
                  (Revision (RollbackSpec rollback))) = Inl err \<longrightarrow>
          Create r pkg ctx (IsRollback rollback) createValidation =
            (Fail (newInvalidError rollback (errText err)),
             [CallValidate, CallCreateValidation,
              GetDeploymentConfig ns (RollbackName rollback),
              GetReplicationController ns
                (DeploymentNameForConfigVersion pkg (Name from)
                   (Revision (RollbackSpec rollback)))]))"
proof -
  have guards: "LatestVersion from \<noteq> 0" "LatestVersion from \<noteq> 1"
    using assms(5) sless_one_neq by auto
  have differ: "LatestVersion from \<noteq> Revision (RollbackSpec rollback)"
    using assms(6) by (auto simp: word_sless_alt)
  have "sint (1::int64) = 1" by simp
  then have positive: "0 <s Revision (RollbackSpec rollback)"
    using assms(5,6) unfolding word_sless_alt by simp
  show ?thesis
    using guards differ positive assms(1-4)
    by (auto simp add: Create_def Let_def split: sum.splits)
qed

theorem Create_later_revision_looked_up_witness:
  "1 <s LatestVersion (exampleConfig 3)
   \<and> LatestVersion (exampleConfig 3) <s Revision (RollbackSpec (exampleRollback 7))
   \<and> Create (exampleREST (exampleConfig 3) []) examplePackages exampleContext
        (IsRollback (exampleRollback 7)) noCreateValidation =
     (Fail (newInvalidError (exampleRollback 7) ''cfg-7 not found''),
      [CallValidate, CallCreateValidation, GetDeploymentConfig ''ns'' ''cfg'',
       GetReplicationController ''ns'' ''cfg-7''])"
  using Create_later_revision_looked_up [of exampleContext "''ns''" examplePackages
      "exampleRollback 7" noCreateValidation "exampleREST (exampleConfig 3) []"
      "exampleConfig 3"]
  by (simp add: exampleREST_def examplePackages_def exampleConfig_def exampleRollback_def
      exampleContext_def noCreateValidation_def notFound_def formatInt64_7 word_sless_alt)

subsection \<open>A deployment config that does not exist\<close>

text \<open>
  C9, as the claim states it, fails: when the read of the deployment config fails with a
  not-found error, the error that \<^verbatim>\<open>Create\<close> returns is not of the not-found kind but
  of the invalid kind.
\<close>

theorem Create_missing_config_counterexample:
  "dn (exampleREST (exampleConfig 2) []) ''ns'' ''gone'' = Inl (notFound ''gone'')
   \<and> errReason (notFound ''gone'') = StatusReasonNotFound
   \<and> fst (Create (exampleREST (exampleConfig 2) []) examplePackages exampleContext
        (IsRollback ((exampleRollback 0)\<lparr>RollbackName := ''gone''\<rparr>)) noCreateValidation)
       = Fail (newInvalidError ((exampleRollback 0)\<lparr>RollbackName := ''gone''\<rparr>)
           (''cannot get deployment config '' @ quoted examplePackages ''gone''
              @ '': gone not found''))
   \<and> \<not> IsNotFound (newInvalidError ((exampleRollback 0)\<lparr>RollbackName := ''gone''\<rparr>)
           (''cannot get deployment config '' @ quoted examplePackages ''gone''
              @ '': gone not found''))
   \<and> IsInvalid (newInvalidError ((exampleRollback 0)\<lparr>RollbackName := ''gone''\<rparr>)
           (''cannot get deployment config '' @ quoted examplePackages ''gone''
              @ '': gone not found''))"
  by (simp add: Create_def newInvalidError_def IsNotFound_def IsInvalid_def exampleREST_def
      examplePackages_def exampleConfig_def exampleRollback_def exampleContext_def
      noCreateValidation_def notFound_def)

text \<open>
  C9, amended. When the read of the named deployment config fails (the config does not
  exist, or any other error), \<^verbatim>\<open>Create\<close> fails with an error of the invalid kind, the
  kind of its other rejections and not the not-found kind. The error names the kind
  \<open>DeploymentConfigRollback\<close> and the request's name, and its one cause is an invalid
  value on the field \<open>name\<close>: the bad value is the request's name and the reason is
  "cannot get deployment config", the quoted name and the text of the read's error.
  No replication controller is looked up.
\<close>

theorem Create_missing_config_invalid:
  assumes "NamespaceFrom ctx = Some ns"
    and "ValidateDeploymentConfigRollback pkg rollback = []"
    and "createValidation (IsRollback rollback) = None"
    and "dn r ns (RollbackName rollback) = Inl err"
  shows "(let e = NewInvalid ''DeploymentConfigRollback'' (RollbackName rollback)
                   [\<lparr>Type = ErrorTypeInvalid, Field = ''name'',
                     BadValue = RollbackName rollback,
                     Detail = ''cannot get deployment config ''
                       @ quoted pkg (RollbackName rollback) @ '': '' @ errText err\<rparr>]
          in Create r pkg ctx (IsRollback rollback) createValidation =
               (Fail e, [CallValidate, CallCreateValidation,
                         GetDeploymentConfig ns (RollbackName rollback)])
           \<and> IsInvalid e \<and> \<not> IsNotFound e \<and> \<not> IsBadRequest e)"
  using assms
  by (simp add: Create_def newInvalidError_def field_Invalid_def IsInvalid_def IsNotFound_def
      IsBadRequest_def)

theorem Create_missing_config_invalid_witness:
  "dn (exampleREST (exampleConfig 2) []) ''ns'' ''gone'' = Inl (notFound ''gone'')
   \<and> Create (exampleREST (exampleConfig 2) []) examplePackages exampleContext
        (IsRollback ((exampleRollback 0)\<lparr>RollbackName := ''gone''\<rparr>)) noCreateValidation =
     (Fail (NewInvalid ''DeploymentConfigRollback'' ''gone''
        [\<lparr>Type = ErrorTypeInvalid, Field = ''name'', BadValue = ''gone'',
          Detail = ''cannot get deployment config '' @ quoted examplePackages ''gone''
            @ '': gone not found''\<rparr>]),
      [CallValidate, CallCreateValidation, GetDeploymentConfig ''ns'' ''gone''])"
  using Create_missing_config_invalid [of exampleContext "''ns''" examplePackages
      "(exampleRollback 0)\<lparr>RollbackName := ''gone''\<rparr>" noCreateValidation
      "exampleREST (exampleConfig 2) []" "notFound ''gone''"]
  by (simp add: exampleREST_def examplePackages_def exampleConfig_def exampleRollback_def
      exampleContext_def noCreateValidation_def notFound_def Let_def)

subsection \<open>A request without a namespace\<close>

text \<open>
  C10. When the request context carries no namespace, \<^verbatim>\<open>Create\<close> fails with the bad
  request error "namespace parameter required." and makes no call at all: no validation
  and no read, whatever the object and the collaborators are.
\<close>

theorem Create_namespace_required:
  "Create r pkg \<lparr>NamespaceFrom = None\<rparr> obj createValidation =
     (Fail (NewBadRequest ''namespace parameter required.''), [])
   \<and> IsBadRequest (NewBadRequest ''namespace parameter required.'')"
  by (simp add: Create_def IsBadRequest_def)

end
